theory Spec2Isabelle
  imports Complex_Main
begin

section \<open>The compression client: data model\<close>

text \<open>
  The development embeds \<^verbatim>\<open>clp_package_utils/scripts/native/compress.py\<close>: the
  client that submits one compression job to the job collection, polls it until it
  ends, and requests its cancellation when the client is interrupted.
  Python's unbounded integers are \<open>int\<close>. Python's floats are idealised as rationals:
  the quotients the script computes are exact here, and the rendering of a number in a
  log line (\<^verbatim>\<open>{:.2f}\<close>, \<^verbatim>\<open>round(x, 2)\<close>, \<^verbatim>\<open>pretty_size\<close>) is left to the
  reader of the line, which carries the number itself.
\<close>

subsection \<open>Job status\<close>

datatype JobStatus = PENDING | RUNNING | DONE | FAILED | CANCELLING | CANCELLED

text \<open>
  Modelled from the spec: the methods \<^verbatim>\<open>__str__\<close> and \<^verbatim>\<open>from_str\<close> of the
  enumeration \<^verbatim>\<open>JobStatus\<close>, imported from \<^verbatim>\<open>compression_job_handler.common\<close>,
  which is not among the sources. The spec has six states and a decoder that fails on
  every other string; the script writes the pending state as \<^verbatim>\<open>"pending"\<close> (line 136)
  and catches \<^verbatim>\<open>KeyError\<close> around the decoder (line 199). \<open>None\<close> is that
  \<^verbatim>\<open>KeyError\<close>.
\<close>

fun status_str :: "JobStatus \<Rightarrow> string" where
  "status_str PENDING = ''pending''"
| "status_str RUNNING = ''running''"
| "status_str DONE = ''done''"
| "status_str FAILED = ''failed''"
| "status_str CANCELLING = ''cancelling''"
| "status_str CANCELLED = ''cancelled''"

definition from_str :: "string \<Rightarrow> JobStatus option" where
  "from_str label =
     (if label = ''pending'' then Some PENDING
      else if label = ''running'' then Some RUNNING
      else if label = ''done'' then Some DONE
      else if label = ''failed'' then Some FAILED
      else if label = ''cancelling'' then Some CANCELLING
      else if label = ''cancelled'' then Some CANCELLED
      else None)"

subsection \<open>Job documents\<close>

type_synonym job_id = nat

text \<open>
  A timestamp field holds either an integer of milliseconds or a \<^verbatim>\<open>datetime\<close>
  (counted here in microseconds, its resolution). The difference of two integers is an
  integer, the difference of two datetimes is a \<^verbatim>\<open>timedelta\<close>, and Python raises
  \<^verbatim>\<open>TypeError\<close> on a mixed pair.
\<close>

datatype tsval = Millis int | Datetime int

datatype delta = Number int | Timedelta int

fun ts_minus :: "tsval \<Rightarrow> tsval \<Rightarrow> delta option" where
  "ts_minus (Millis e) (Millis b) = Some (Number (e - b))"
| "ts_minus (Datetime e) (Datetime b) = Some (Timedelta (e - b))"
| "ts_minus _ _ = None"

text \<open>
  The document of a job: the eight fields the client writes at line 133 (the optional
  prefix of \<^verbatim>\<open>input_config\<close> included), and the two timestamps the worker adds,
  absent until then.
\<close>

record document =
  input_type :: string
  input_config_paths :: "string list"
  input_config_path_prefix_to_remove :: "string option"
  status :: string
  submission_timestamp :: int
  logs_uncompressed_size :: int
  logs_compressed_size :: int
  errors :: bool
  output_config :: "(string \<times> int) list"
  begin_timestamp :: "tsval option"
  end_timestamp :: "tsval option"

subsection \<open>The job collection\<close>

type_synonym store = "job_id \<rightharpoonup> document"

datatype exn = KeyError | TypeError | ZeroDivisionError | KeyboardInterrupt | DuplicateKeyError

text \<open>
  Modelled from the spec: the three operations of the job store (section 6), which the
  script reaches through \<^verbatim>\<open>pymongo\<close>. \<open>insert_one\<close> stores a document under the
  identifier the driver generated and refuses one already in use; \<open>find_one\<close> reads the
  document of an identifier (the client reads only the six projected fields of it);
  \<open>find_one_and_update\<close> is the conditional update: in one step it looks for the
  document of the identifier whose status is the expected one, sets its status and
  returns the document as it was, or returns \<open>None\<close> and writes nothing.
\<close>

definition insert_one :: "store \<Rightarrow> job_id \<Rightarrow> document \<Rightarrow> exn + (job_id \<times> store)" where
  "insert_one st oid entry =
     (case st oid of
        Some _ \<Rightarrow> Inl DuplicateKeyError
      | None \<Rightarrow> Inr (oid, st(oid \<mapsto> entry)))"

definition find_one :: "store \<Rightarrow> job_id \<Rightarrow> document option" where
  "find_one st oid = st oid"

definition find_one_and_update ::
  "store \<Rightarrow> job_id \<Rightarrow> string \<Rightarrow> string \<Rightarrow> document option \<times> store" where
  "find_one_and_update st oid expected new_status =
     (case st oid of
        None \<Rightarrow> (None, st)
      | Some d \<Rightarrow>
          if status d = expected then (Some d, st(oid \<mapsto> d\<lparr>status := new_status\<rparr>))
          else (None, st))"

subsection \<open>What a run leaves behind\<close>

datatype level = INFO | ERROR

datatype message =
    Validation_error
  | Submitted job_id
  | Waiting_for_updates
  | Compressed int int rat
  | Job_disappeared
  | Unknown_status string job_id
  | Compression_failed
  | Compression_cancelled
  | Compression_finished rat rat
  | Errors_occurred
  | Trying_to_cancel
  | Already_started
  | Cancelled_jobs

text \<open>
  An event is a line of the logger, a usage error of the argument parser, a sleep of one
  second, or a call of the store. \<open>Compressed u c r\<close> is the progress line with the
  uncompressed size, the compressed size and the ratio in percent;
  \<open>Compression_finished t s\<close> is the final line with the runtime in seconds and the
  speed in bytes per second.
\<close>

datatype event =
    Log level message
  | Parser_error string
  | Sleep
  | Call_insert_one document
  | Call_find_one job_id
  | Call_find_one_and_update job_id string string

text \<open>
  How \<^verbatim>\<open>main\<close> ends: it returns a code, the argument parser exits, an exception
  leaves it (with the line that raised it), or it is still waiting when the observed
  part of the run is over.
\<close>

datatype outcome = Returned int | SystemExit int | Raised exn nat | Waiting

type_synonym run = "outcome \<times> event list \<times> store"

fun after :: "event list \<Rightarrow> run \<Rightarrow> run" where
  "after evs (out, evs', st) = (out, evs @ evs', st)"

text \<open>
  Line 261 hands the value \<^verbatim>\<open>main\<close> returns to \<^verbatim>\<open>sys.exit\<close>, which reports it
  modulo 256; an exception that leaves \<^verbatim>\<open>main\<close> ends the interpreter with a status
  that is not zero, written 1 here. A run that is still waiting has no exit status.
\<close>

fun exit_status :: "outcome \<Rightarrow> int option" where
  "exit_status (Returned n) = Some (n mod 256)"
| "exit_status (SystemExit n) = Some (n mod 256)"
| "exit_status (Raised e l) = Some 1"
| "exit_status Waiting = None"

section \<open>The monitoring loop (lines 162 to 229)\<close>

text \<open>
  Python's \<^verbatim>\<open>/\<close> raises \<^verbatim>\<open>ZeroDivisionError\<close> on a zero divisor, where HOL's
  division returns 0; \<open>None\<close> is the exception.
\<close>

definition truediv :: "rat \<Rightarrow> rat \<Rightarrow> rat option" where
  "truediv a b = (if b = 0 then None else Some (a / b))"

text \<open>
  Lines 183 to 193: the progress line and the new value of
  \<^verbatim>\<open>last_uncompressed_size\<close>. The division of line 190 is the only statement that
  can raise.
\<close>

definition report_progress :: "int \<Rightarrow> document \<Rightarrow> (exn \<times> nat) + (event list \<times> int)" where
  "report_progress last_uncompressed_size doc =
     (let uncompressed_size = logs_uncompressed_size doc;
          compressed_size = logs_compressed_size doc
      in if last_uncompressed_size < uncompressed_size then
           (case truediv (of_int compressed_size) (of_int uncompressed_size) of
              None \<Rightarrow> Inl (ZeroDivisionError, 190)
            | Some q \<Rightarrow>
                Inr ([Log INFO (Compressed uncompressed_size compressed_size (q * 100))],
                     uncompressed_size))
         else Inr ([], last_uncompressed_size))"

text \<open>
  Lines 210 to 215: the runtime in seconds. Reading an absent timestamp raises
  \<^verbatim>\<open>KeyError\<close>, and the end is read before the beginning.
\<close>

definition job_runtime :: "document \<Rightarrow> (exn \<times> nat) + rat" where
  "job_runtime doc =
     (case end_timestamp doc of
        None \<Rightarrow> Inl (KeyError, 210)
      | Some e \<Rightarrow>
          (case begin_timestamp doc of
             None \<Rightarrow> Inl (KeyError, 210)
           | Some b \<Rightarrow>
               (case ts_minus e b of
                  None \<Rightarrow> Inl (TypeError, 210)
                | Some (Timedelta us) \<Rightarrow> Inr (of_int us / 1000000)
                | Some (Number ms) \<Rightarrow> Inr (of_int ms / 1000))))"

text \<open>How one iteration leaves the loop, or stays in it.\<close>

datatype control = Continue | Break | Return int | Raise exn nat

text \<open>
  Lines 178 to 229: one iteration, from the answer of \<^verbatim>\<open>find_one\<close> on. It gives the
  lines logged, the new \<^verbatim>\<open>last_uncompressed_size\<close> and how the iteration ends.
\<close>

definition poll_iteration ::
  "job_id \<Rightarrow> int \<Rightarrow> document option \<Rightarrow> event list \<times> int \<times> control" where
  "poll_iteration job_id last_uncompressed_size found =
     (case found of
        None \<Rightarrow> ([Log ERROR Job_disappeared], last_uncompressed_size, Return (- 1))
      | Some doc \<Rightarrow>
          (case report_progress last_uncompressed_size doc of
             Inl (e, l) \<Rightarrow> ([], last_uncompressed_size, Raise e l)
           | Inr (evs, last') \<Rightarrow>
               (case from_str (status doc) of
                  None \<Rightarrow>
                    (evs @ [Log ERROR (Unknown_status (status doc) job_id)], last', Return (- 1))
                | Some job_status \<Rightarrow>
                    if job_status = FAILED then
                      (evs @ [Log ERROR Compression_failed], last', Break)
                    else if job_status = CANCELLED then
                      (evs @ [Log ERROR Compression_cancelled], last', Break)
                    else if job_status = DONE then
                      (case job_runtime doc of
                         Inl (e, l) \<Rightarrow> (evs, last', Raise e l)
                       | Inr runtime \<Rightarrow>
                           (case truediv (of_int last') runtime of
                              None \<Rightarrow> (evs, last', Raise ZeroDivisionError 217)
                            | Some speed \<Rightarrow>
                                (evs @ [Log INFO (Compression_finished runtime speed)]
                                   @ (if errors doc then [Log ERROR Errors_occurred] else []),
                                 last', Break)))
                    else (evs, last', Continue))))"

text \<open>
  The client shares the collection with the worker. A tick is one second of waiting:
  \<open>Work w\<close> when the sleep ends and the other processes have changed the collection by
  \<open>w\<close> meanwhile, \<open>Ctrl_C w\<close> when the interruption arrives during the sleep.
  The list of ticks is the observed part of a run; a loop that has used all of it is
  still waiting.
\<close>

datatype tick = Work "store \<Rightarrow> store" | Ctrl_C "store \<Rightarrow> store"

section \<open>The interruption handler (lines 230 to 255)\<close>

text \<open>
  Lines 244 to 255: the wait for the cancellation. The decoder of line 252 stands
  outside any \<^verbatim>\<open>try\<close>, and so does the sleep: an unknown status and a second
  interruption both leave \<^verbatim>\<open>main\<close> as exceptions.
\<close>

fun cancel_wait :: "job_id \<Rightarrow> store \<Rightarrow> tick list \<Rightarrow> run" where
  "cancel_wait job_id st [] = (Waiting, [], st)"
| "cancel_wait job_id st (Ctrl_C w # ticks) = (Raised KeyboardInterrupt 245, [Sleep], w st)"
| "cancel_wait job_id st (Work w # ticks) =
     (case find_one (w st) job_id of
        None \<Rightarrow>
          (Returned (- 1), [Sleep, Call_find_one job_id, Log ERROR Job_disappeared], w st)
      | Some doc \<Rightarrow>
          (case from_str (status doc) of
             None \<Rightarrow> (Raised KeyError 252, [Sleep, Call_find_one job_id], w st)
           | Some job_status \<Rightarrow>
               if job_status = CANCELLED \<or> job_status = DONE then
                 (Returned 0, [Sleep, Call_find_one job_id, Log INFO Cancelled_jobs], w st)
               else after [Sleep, Call_find_one job_id] (cancel_wait job_id (w st) ticks)))"

text \<open>
  Lines 234 to 237: the request for cancellation, one conditional update whose filter
  is the job's identifier with the status \<^verbatim>\<open>str(JobStatus.PENDING)\<close> and whose
  update sets the status to \<^verbatim>\<open>str(JobStatus.CANCELLING)\<close>.
\<close>

definition request_cancellation :: "store \<Rightarrow> job_id \<Rightarrow> document option \<times> store" where
  "request_cancellation st job_id =
     find_one_and_update st job_id (status_str PENDING) (status_str CANCELLING)"

text \<open>
  Lines 230 to 257: the handler of \<^verbatim>\<open>KeyboardInterrupt\<close>, with the \<^verbatim>\<open>return 0\<close>
  that follows it. \<open>job_id\<close> is \<open>None\<close> when the interruption came before line 156.
\<close>

definition on_interrupt :: "job_id option \<Rightarrow> store \<Rightarrow> tick list \<Rightarrow> run" where
  "on_interrupt job_id st ticks =
     after [Log INFO Trying_to_cancel]
       (case job_id of
          None \<Rightarrow> (Returned 0, [], st)
        | Some oid \<Rightarrow>
            after [Call_find_one_and_update oid (status_str PENDING) (status_str CANCELLING)]
              (case request_cancellation st oid of
                 (None, st') \<Rightarrow> (Returned 0, [Log ERROR Already_started], st')
               | (Some result, st') \<Rightarrow> cancel_wait oid st' ticks))"

text \<open>Lines 162 to 229, with the handler an interruption of the sleep transfers to.\<close>

fun monitor :: "job_id \<Rightarrow> int \<Rightarrow> store \<Rightarrow> tick list \<Rightarrow> run" where
  "monitor job_id last_uncompressed_size st [] = (Waiting, [], st)"
| "monitor job_id last_uncompressed_size st (Ctrl_C w # ticks) =
     after [Sleep] (on_interrupt (Some job_id) (w st) ticks)"
| "monitor job_id last_uncompressed_size st (Work w # ticks) =
     (case poll_iteration job_id last_uncompressed_size (find_one (w st) job_id) of
        (evs, last', c) \<Rightarrow>
          after (Sleep # Call_find_one job_id # evs)
            (case c of
               Continue \<Rightarrow> monitor job_id last' (w st) ticks
             | Break \<Rightarrow> (Returned 0, [], w st)
             | Return n \<Rightarrow> (Returned n, [], w st)
             | Raise e l \<Rightarrow> (Raised e l, [], w st)))"

section \<open>Arguments, the job entry and \<^verbatim>\<open>main\<close>\<close>

text \<open>
  The namespace the argument parser returns (lines 40 to 76). An option that was not
  given is \<open>None\<close>; the parser has already turned the sizes into integers.
\<close>

record args =
  paths :: "string list"
  input_list :: "string option"
  path_prefix_to_remove :: "string option"
  target_archive_size :: "int option"
  target_archive_dictionaries_data_size :: "int option"
  target_segment_size :: "int option"
  target_encoded_file_size :: "int option"
  target_num_archives :: "int option"

definition target_size_options :: "string list" where
  "target_size_options =
     [''--target-archive-size'',
      ''--target-archive-dictionaries-data-size'',
      ''--target-segment-size'',
      ''--target-encoded-file-size'',
      ''--target-num-archives'']"

text \<open>Line 92: \<^verbatim>\<open>opt[2:].replace("-", "_")\<close>.\<close>

definition attribute_of :: "string \<Rightarrow> string" where
  "attribute_of opt = map (\<lambda>c. if c = CHR ''-'' then CHR ''_'' else c) (drop 2 opt)"

definition target_size_attributes :: "string list" where
  "target_size_attributes = map attribute_of target_size_options"

text \<open>\<^verbatim>\<open>getattr(args, attr)\<close> on the attributes of the sizes.\<close>

definition getattr :: "args \<Rightarrow> string \<Rightarrow> int option" where
  "getattr a attr =
     (if attr = ''target_archive_size'' then target_archive_size a
      else if attr = ''target_archive_dictionaries_data_size''
        then target_archive_dictionaries_data_size a
      else if attr = ''target_segment_size'' then target_segment_size a
      else if attr = ''target_encoded_file_size'' then target_encoded_file_size a
      else if attr = ''target_num_archives'' then target_num_archives a
      else None)"

text \<open>
  Lines 93 to 96: the first size that is not positive ends the process through
  \<^verbatim>\<open>args_parser.error\<close>; the result is its message.
\<close>

fun check_target_sizes :: "args \<Rightarrow> (string \<times> string) list \<Rightarrow> string option" where
  "check_target_sizes a [] = None"
| "check_target_sizes a ((opt, attr) # rest) =
     (case getattr a attr of
        None \<Rightarrow> check_target_sizes a rest
      | Some v \<Rightarrow>
          if v \<le> 0 then Some (opt @ '' must be greater than 0.'')
          else check_target_sizes a rest)"

text \<open>Lines 78 to 96: the message of the usage error, if there is one.\<close>

definition validate :: "args \<Rightarrow> string option" where
  "validate a =
     (if input_list a = None \<and> length (paths a) = 0 then Some ''No paths specified.''
      else if length (paths a) > 0 \<and> input_list a \<noteq> None then
        Some ''Paths cannot be specified on the command line AND through a file.''
      else check_target_sizes a (zip target_size_options target_size_attributes))"

text \<open>Lines 126 to 130: the dictionary of the sizes that were given, in the order of insertion.\<close>

fun gen_output_config :: "args \<Rightarrow> string list \<Rightarrow> (string \<times> int) list" where
  "gen_output_config a [] = []"
| "gen_output_config a (attr # rest) =
     (case getattr a attr of
        None \<Rightarrow> gen_output_config a rest
      | Some v \<Rightarrow> (attr, v) # gen_output_config a rest)"

text \<open>
  Python's \<^verbatim>\<open>round\<close> with one argument: the nearest integer, the even one of the two
  when the number is halfway.
\<close>

definition py_round :: "rat \<Rightarrow> int" where
  "py_round x =
     (let f = \<lfloor>x\<rfloor>; d = x - of_int f
      in if d < 1 / 2 then f
         else if 1 / 2 < d then f + 1
         else if even f then f else f + 1)"

text \<open>
  Lines 133 to 144: the entry to insert, from the arguments, the collected input paths
  and the clock (\<^verbatim>\<open>time.time()\<close>, in seconds).
\<close>

definition make_entry :: "args \<Rightarrow> string list \<Rightarrow> rat \<Rightarrow> document" where
  "make_entry a input_paths now =
     \<lparr> input_type = ''fs'',
       input_config_paths = input_paths,
       input_config_path_prefix_to_remove = path_prefix_to_remove a,
       status = ''pending'',
       submission_timestamp = py_round (now * 1000),
       logs_uncompressed_size = 0,
       logs_compressed_size = 0,
       errors = False,
       output_config = gen_output_config a target_size_attributes,
       begin_timestamp = None,
       end_timestamp = None \<rparr>"

text \<open>
  What a run of \<^verbatim>\<open>main\<close> meets outside the script: whether the configuration file
  passes its validation (line 101), the input paths lines 106 to 123 collect from the
  file system, the clock, the identifier the driver generates for the entry, the
  collection as it is before the insertion, whether the interruption arrives while
  \<^verbatim>\<open>insert_one\<close> is running (the entry is then not stored and \<^verbatim>\<open>job_id\<close> stays
  \<^verbatim>\<open>None\<close>), and the ticks of the wait. The store is taken to answer every call.
\<close>

record env =
  config_valid :: bool
  collected_paths :: "string list"
  clock :: rat
  new_id :: job_id
  collection :: store
  interrupted_in_insert :: bool
  ticks :: "tick list"

text \<open>Lines 152 to 257: the submission, the loop and the handler.\<close>

definition submit_and_wait :: "document \<Rightarrow> env \<Rightarrow> run" where
  "submit_and_wait entry e =
     after [Call_insert_one entry]
       (if interrupted_in_insert e then on_interrupt None (collection e) (ticks e)
        else
          (case insert_one (collection e) (new_id e) entry of
             Inl x \<Rightarrow> (Raised x 155, [], collection e)
           | Inr (job_id, st) \<Rightarrow>
               after [Log INFO (Submitted job_id), Log INFO Waiting_for_updates]
                 (monitor job_id 0 st (ticks e))))"

text \<open>Lines 37 to 257.\<close>

definition main :: "args \<Rightarrow> env \<Rightarrow> run" where
  "main a e =
     (case validate a of
        Some msg \<Rightarrow> (SystemExit 2, [Parser_error msg], collection e)
      | None \<Rightarrow>
          if \<not> config_valid e then
            (Returned (- 1), [Log ERROR Validation_error], collection e)
          else submit_and_wait (make_entry a (collected_paths e) (clock e)) e)"


section \<open>Reading a run\<close>

text \<open>
  A run is an outcome, the events in their order, and the collection it leaves. The three
  projections name the parts.
\<close>

definition outcome_of :: "run \<Rightarrow> outcome" where
  "outcome_of r = fst r"

definition events_of :: "run \<Rightarrow> event list" where
  "events_of r = fst (snd r)"

definition store_of :: "run \<Rightarrow> store" where
  "store_of r = snd (snd r)"

text \<open>
  Kinds of events: the progress lines; the lines logged at the error level; the calls that
  insert a document; the events that are not a progress line with an uncompressed size of 0
  or less; the lines that report a terminal state of the job; the lines that report a fatal
  condition.
\<close>

fun is_progress :: "event \<Rightarrow> bool" where
  "is_progress (Log l (Compressed u c r)) = True"
| "is_progress _ = False"

fun is_error :: "event \<Rightarrow> bool" where
  "is_error (Log ERROR m) = True"
| "is_error _ = False"

fun is_insert :: "event \<Rightarrow> bool" where
  "is_insert (Call_insert_one d) = True"
| "is_insert _ = False"

fun positive_progress :: "event \<Rightarrow> bool" where
  "positive_progress (Log l (Compressed u c r)) = (0 < u)"
| "positive_progress _ = True"

fun terminal_report :: "event \<Rightarrow> bool" where
  "terminal_report (Log l Compression_failed) = True"
| "terminal_report (Log l Compression_cancelled) = True"
| "terminal_report (Log l (Compression_finished t s)) = True"
| "terminal_report (Log l Cancelled_jobs) = True"
| "terminal_report _ = False"

fun fatal_report :: "event \<Rightarrow> bool" where
  "fatal_report (Log l Job_disappeared) = True"
| "fatal_report (Log l (Unknown_status s i)) = True"
| "fatal_report (Log l Validation_error) = True"
| "fatal_report _ = False"

text \<open>
  The exit of a run agrees with its log when a line reporting a terminal state comes only
  with the return of 0, and a line reporting a fatal condition only with the return of -1.
\<close>

definition exit_consistent :: "run \<Rightarrow> bool" where
  "exit_consistent r \<longleftrightarrow>
     (list_ex terminal_report (events_of r) \<longrightarrow> outcome_of r = Returned 0) \<and>
     (list_ex fatal_report (events_of r) \<longrightarrow> outcome_of r = Returned (- 1))"

section \<open>A worked run\<close>

text \<open>
  A submission of two paths with one target size, at the clock 1700000000, and the document
  of the job once the worker has finished it: 1,000,000 bytes compressed into 250,000 in two
  seconds. In the first environment the worker finishes during the first second of the wait.
  In the second the client is interrupted during the first second, and the worker then writes
  a status that is none of the six states.
\<close>

definition example_args :: args where
  "example_args =
     \<lparr> paths = [''/a'', ''/b''], input_list = None, path_prefix_to_remove = None,
       target_archive_size = Some 268435456, target_archive_dictionaries_data_size = None,
       target_segment_size = None, target_encoded_file_size = None,
       target_num_archives = None \<rparr>"

definition example_entry :: document where
  "example_entry = make_entry example_args [''/a'', ''/b''] 1700000000"

definition example_done :: document where
  "example_done =
     example_entry \<lparr> status := ''done'', logs_uncompressed_size := 1000000,
       logs_compressed_size := 250000, begin_timestamp := Some (Millis 1000),
       end_timestamp := Some (Millis 3000) \<rparr>"

definition example_env :: env where
  "example_env =
     \<lparr> config_valid = True, collected_paths = [''/a'', ''/b''], clock = 1700000000,
       new_id = 0, collection = Map.empty, interrupted_in_insert = False,
       ticks = [Work (\<lambda>st. st(0 \<mapsto> example_done))] \<rparr>"

definition interrupted_env :: env where
  "interrupted_env =
     example_env \<lparr> ticks :=
       [Ctrl_C (\<lambda>st. st), Work (\<lambda>st. st(0 \<mapsto> example_entry\<lparr>status := ''bogus''\<rparr>))] \<rparr>"

section \<open>Basic facts\<close>

lemma from_str_iff: "from_str l = Some s \<longleftrightarrow> l = status_str s"
  by (cases s) (auto simp: from_str_def)

lemma run_simps [simp]:
  "outcome_of (out, evs, st) = out"
  "events_of (out, evs, st) = evs"
  "store_of (out, evs, st) = st"
  "outcome_of (after es r) = outcome_of r"
  "events_of (after es r) = es @ events_of r"
  "store_of (after es r) = store_of r"
  by (cases r; simp add: outcome_of_def events_of_def store_of_def)+

lemma report_progress_cases:
  "0 \<le> seen \<Longrightarrow>
   report_progress seen doc =
     (if seen < logs_uncompressed_size doc
      then Inr ([Log INFO (Compressed (logs_uncompressed_size doc) (logs_compressed_size doc)
                   (of_int (logs_compressed_size doc) / of_int (logs_uncompressed_size doc) * 100))],
                logs_uncompressed_size doc)
      else Inr ([], seen))"
  by (auto simp: report_progress_def truediv_def Let_def)

lemma job_runtime_Millis:
  "begin_timestamp doc = Some (Millis b) \<Longrightarrow> end_timestamp doc = Some (Millis e) \<Longrightarrow>
   job_runtime doc = Inr (of_int (e - b) / 1000)"
  by (simp add: job_runtime_def)

lemma job_runtime_Datetime:
  "begin_timestamp doc = Some (Datetime b) \<Longrightarrow> end_timestamp doc = Some (Datetime e) \<Longrightarrow>
   job_runtime doc = Inr (of_int (e - b) / 1000000)"
  by (simp add: job_runtime_def)

lemma poll_iteration_DONE:
  "0 \<le> seen \<Longrightarrow> from_str (status doc) = Some DONE \<Longrightarrow>
   poll_iteration job_id seen (Some doc) =
     (case report_progress seen doc of
        Inl (x, l) \<Rightarrow> ([], seen, Raise x l)
      | Inr (evs, seen') \<Rightarrow>
         (case job_runtime doc of
            Inl (x, l) \<Rightarrow> (evs, seen', Raise x l)
          | Inr runtime \<Rightarrow>
              if runtime = 0 then (evs, seen', Raise ZeroDivisionError 217)
              else (evs @ [Log INFO (Compression_finished runtime (of_int seen' / runtime))]
                      @ (if errors doc then [Log ERROR Errors_occurred] else []), seen', Break)))"
  by (auto simp: poll_iteration_def truediv_def split: sum.splits prod.splits)

lemma target_size_attributes_eq:
  "target_size_attributes =
     [''target_archive_size'', ''target_archive_dictionaries_data_size'',
      ''target_segment_size'', ''target_encoded_file_size'', ''target_num_archives'']"
  by (simp add: target_size_attributes_def target_size_options_def attribute_of_def)

lemma distinct_target_size_attributes: "distinct target_size_attributes"
  by (simp add: target_size_attributes_eq)

lemma example_entry_eq:
  "example_entry =
     \<lparr> input_type = ''fs'', input_config_paths = [''/a'', ''/b''],
       input_config_path_prefix_to_remove = None, status = ''pending'',
       submission_timestamp = 1700000000000, logs_uncompressed_size = 0,
       logs_compressed_size = 0, errors = False,
       output_config = [(''target_archive_size'', 268435456)],
       begin_timestamp = None, end_timestamp = None \<rparr>"
  by (simp add: example_entry_def make_entry_def example_args_def target_size_attributes_eq
        getattr_def py_round_def Let_def)

lemma validate_example: "validate example_args = None"
  by (simp add: validate_def example_args_def target_size_attributes_eq target_size_options_def
        getattr_def)

lemma make_entry_literal:
  "make_entry example_args [''/a'', ''/b''] 1700000000 = example_entry"
  by (simp only: example_entry_def)

lemma make_entry_example:
  "make_entry example_args (collected_paths example_env) (clock example_env) = example_entry"
  by (simp add: example_env_def make_entry_literal)

lemma poll_example_done:
  "poll_iteration 0 0 (Some example_done) =
     ([Log INFO (Compressed 1000000 250000 25), Log INFO (Compression_finished 2 500000)],
      1000000, Break)"
  by (simp add: poll_iteration_def report_progress_def truediv_def job_runtime_def from_str_def
        example_done_def example_entry_eq Let_def)

lemma main_example:
  "outcome_of (main example_args example_env) = Returned 0"
  "events_of (main example_args example_env) =
     [Call_insert_one example_entry, Log INFO (Submitted 0), Log INFO Waiting_for_updates,
      Sleep, Call_find_one 0,
      Log INFO (Compressed 1000000 250000 25), Log INFO (Compression_finished 2 500000)]"
  by (simp_all add: main_def validate_example make_entry_literal submit_and_wait_def
        insert_one_def find_one_def poll_example_done example_env_def)

section \<open>The request for cancellation\<close>

text \<open>
  C1. The request for cancellation is one conditional update. It matches, and then sets the
  status to \<^verbatim>\<open>cancelling\<close>, exactly when the document of the job exists with the status
  \<^verbatim>\<open>pending\<close>; on a document that is running, done, failed or cancelled it matches nothing
  and leaves the collection as it is; it never touches another document. The update is one
  step of the store: nothing another process does comes between its test and its write.
\<close>

theorem cancellation_only_from_pending:
  assumes "request_cancellation st oid = (result, st')"
  shows "(result \<noteq> None \<longleftrightarrow> (\<exists>d. st oid = Some d \<and> from_str (status d) = Some PENDING)) \<and>
     (\<forall>d. st oid = Some d \<and> from_str (status d) = Some PENDING \<longrightarrow>
          result = Some d \<and> st' = st(oid \<mapsto> d\<lparr>status := status_str CANCELLING\<rparr>)) \<and>
     (\<forall>d. st oid = Some d \<and>
          from_str (status d) \<in> {Some RUNNING, Some DONE, Some FAILED, Some CANCELLED} \<longrightarrow>
          result = None \<and> st' = st) \<and>
     (result = None \<longrightarrow> st' = st) \<and>
     (\<forall>other. other \<noteq> oid \<longrightarrow> st' other = st other)"
proof (cases "st oid")
  case None
  with assms show ?thesis
    by (simp add: request_cancellation_def find_one_and_update_def)
next
  case (Some d)
  with assms show ?thesis
    by (cases "status d = ''pending''")
       (auto simp: request_cancellation_def find_one_and_update_def from_str_iff)
qed

theorem cancellation_only_from_pending_witness:
  "from_str (status example_entry) = Some PENDING \<and>
   fst (request_cancellation (Map.empty(0 \<mapsto> example_entry)) 0) = Some example_entry \<and>
   snd (request_cancellation (Map.empty(0 \<mapsto> example_entry)) 0) 0 =
     Some (example_entry\<lparr>status := ''cancelling''\<rparr>)"
proof -
  obtain r s where h: "request_cancellation (Map.empty(0 \<mapsto> example_entry)) 0 = (r, s)"
    by (cases "request_cancellation (Map.empty(0 \<mapsto> example_entry)) 0")
  have p: "from_str (status example_entry) = Some PENDING"
    by (simp add: example_entry_eq from_str_def)
  from cancellation_only_from_pending [OF h] p have "r = Some example_entry \<and>
      s = (Map.empty(0 \<mapsto> example_entry))(0 \<mapsto> example_entry\<lparr>status := ''cancelling''\<rparr>)"
    by simp
  with h p show ?thesis by simp
qed

section \<open>A request that matches nothing\<close>

text \<open>
  C2. When the conditional update matches no document, the handler logs that the job has
  already started and \<^verbatim>\<open>main\<close> returns 0; it sleeps no more and polls no more. The run is
  the announcement, the call of the update and the error line, whatever ticks would follow,
  and the collection is as it was.
\<close>

theorem no_match_returns_at_once:
  "fst (request_cancellation st oid) = None \<Longrightarrow>
     on_interrupt (Some oid) st tks =
       (Returned 0,
        [Log INFO Trying_to_cancel,
         Call_find_one_and_update oid ''pending'' ''cancelling'',
         Log ERROR Already_started], st) \<and>
     exit_status (fst (on_interrupt (Some oid) st tks)) = Some 0"
  by (auto simp: on_interrupt_def request_cancellation_def find_one_and_update_def
           split: option.splits if_splits prod.splits)

theorem no_match_returns_at_once_witness:
  "fst (request_cancellation (Map.empty(0 \<mapsto> example_done)) 0) = None \<and>
   outcome_of (on_interrupt (Some 0) (Map.empty(0 \<mapsto> example_done)) []) = Returned 0 \<and>
   events_of (on_interrupt (Some 0) (Map.empty(0 \<mapsto> example_done)) []) =
     [Log INFO Trying_to_cancel, Call_find_one_and_update 0 ''pending'' ''cancelling'',
      Log ERROR Already_started]"
proof -
  have h: "fst (request_cancellation (Map.empty(0 \<mapsto> example_done)) 0) = None"
    by (simp add: request_cancellation_def find_one_and_update_def example_done_def)
  from no_match_returns_at_once [OF h, of "[]"] h show ?thesis by simp
qed

section \<open>A status that is none of the six states\<close>

lemma poll_iteration_unknown_status:
  "0 \<le> seen \<Longrightarrow> from_str (status doc) = None \<Longrightarrow>
   poll_iteration j seen (Some doc) = (evs, seen', c) \<Longrightarrow>
     c = Return (- 1) \<and> filter is_error evs = [Log ERROR (Unknown_status (status doc) j)]"
  by (auto simp: poll_iteration_def report_progress_cases split: if_splits)

lemma cancel_wait_unknown_status:
  "find_one (w st) j = Some doc \<Longrightarrow> from_str (status doc) = None \<Longrightarrow>
   cancel_wait j st (Work w # tks) = (Raised KeyError 252, [Sleep, Call_find_one j], w st)"
  by simp

text \<open>
  C3. For a status outside the six states the monitoring loop logs one error line that names
  it and returns -1 (the first lemma above). The wait for the cancellation does not: its
  decoder stands outside any handler (the second lemma), so the \<^verbatim>\<open>KeyError\<close> leaves
  \<^verbatim>\<open>main\<close> from line 252 and no line is logged. In the run below the client is interrupted
  while the job is pending, the update succeeds, and the next poll reads the status
  \<^verbatim>\<open>bogus\<close>.
\<close>

theorem cancel_wait_unknown_status_uncaught:
  "outcome_of (main example_args interrupted_env) = Raised KeyError 252 \<and>
   events_of (main example_args interrupted_env) =
     [Call_insert_one example_entry, Log INFO (Submitted 0), Log INFO Waiting_for_updates,
      Sleep, Log INFO Trying_to_cancel,
      Call_find_one_and_update 0 ''pending'' ''cancelling'', Sleep, Call_find_one 0] \<and>
   filter is_error (events_of (main example_args interrupted_env)) = []"
proof -
  have e: "from_str ''bogus'' = None" "status example_entry = ''pending''"
    by (simp_all add: from_str_def example_entry_eq)
  show ?thesis
    by (simp add: main_def validate_example make_entry_literal submit_and_wait_def
          insert_one_def find_one_def on_interrupt_def request_cancellation_def
          find_one_and_update_def e example_env_def interrupted_env_def)
qed

section \<open>Progress lines\<close>

text \<open>
  C4. In an iteration of the monitoring loop that finds the document, with a last seen size
  that is not negative (it starts at 0 and is only replaced by a greater one), a progress
  line is logged exactly when the uncompressed size exceeds the last seen size. The line
  carries the uncompressed size, the compressed size and the ratio
  compressed / uncompressed * 100, and the last seen size becomes the observed one.
  Otherwise no progress line is logged and the last seen size stays.
\<close>

theorem progress_iff_size_increased:
  "0 \<le> seen \<Longrightarrow> poll_iteration job_id seen (Some doc) = (evs, seen', c) \<Longrightarrow>
     (if seen < logs_uncompressed_size doc
      then filter is_progress evs =
             [Log INFO (Compressed (logs_uncompressed_size doc) (logs_compressed_size doc)
                (of_int (logs_compressed_size doc) / of_int (logs_uncompressed_size doc) * 100))]
           \<and> seen' = logs_uncompressed_size doc
      else filter is_progress evs = [] \<and> seen' = seen)"
  by (auto simp: poll_iteration_def report_progress_cases split: option.splits sum.splits if_splits prod.splits)

theorem progress_iff_size_increased_witness:
  "(0::int) \<le> 0 \<and>
   filter is_progress (fst (poll_iteration 0 0 (Some example_done))) =
     [Log INFO (Compressed 1000000 250000 25)] \<and>
   fst (snd (poll_iteration 0 0 (Some example_done))) = 1000000"
proof -
  have z: "(0::int) \<le> 0" by simp
  from progress_iff_size_increased [OF z poll_example_done] show ?thesis
    by (simp add: poll_example_done)
qed

section \<open>Runtime and speed of a finished job\<close>

text \<open>
  C5. In an iteration that finds a document with the status \<^verbatim>\<open>done\<close>: when both
  timestamps are integers of milliseconds and differ, the final line carries the runtime
  (end - begin) / 1000; when both are datetimes and differ, it carries the seconds of their
  difference. In both cases the speed is the uncompressed total divided by that runtime, the
  total being the last seen size after the update of this iteration (the greater of the last
  seen size and the size in the document). Every final line logged carries such a pair.
\<close>

theorem done_runtime_and_speed:
  assumes "from_str (status doc) = Some DONE" and "0 \<le> seen"
    and "poll_iteration job_id seen (Some doc) = (evs, seen', c)"
  shows "(\<forall>b e. begin_timestamp doc = Some (Millis b) \<and> end_timestamp doc = Some (Millis e) \<and> e \<noteq> b \<longrightarrow>
            Log INFO (Compression_finished (of_int (e - b) / 1000)
               (of_int (max seen (logs_uncompressed_size doc)) / (of_int (e - b) / 1000))) \<in> set evs) \<and>
         (\<forall>b e. begin_timestamp doc = Some (Datetime b) \<and> end_timestamp doc = Some (Datetime e) \<and> e \<noteq> b \<longrightarrow>
            Log INFO (Compression_finished (of_int (e - b) / 1000000)
               (of_int (max seen (logs_uncompressed_size doc)) / (of_int (e - b) / 1000000))) \<in> set evs) \<and>
         (\<forall>t s. Log INFO (Compression_finished t s) \<in> set evs \<longrightarrow>
            job_runtime doc = Inr t \<and> t \<noteq> 0 \<and>
            s = of_int (max seen (logs_uncompressed_size doc)) / t)"
  using assms
  by (auto simp: poll_iteration_DONE report_progress_cases job_runtime_Millis job_runtime_Datetime
           split: sum.splits if_splits)

theorem done_runtime_and_speed_witness:
  "from_str (status example_done) = Some DONE \<and>
   Log INFO (Compression_finished 2 500000) \<in> set (fst (poll_iteration 0 0 (Some example_done)))"
proof -
  have d: "from_str (status example_done) = Some DONE"
    by (simp add: example_done_def from_str_def)
  have z: "(0::int) \<le> 0" by simp
  have t: "begin_timestamp example_done = Some (Millis 1000) \<and>
           end_timestamp example_done = Some (Millis 3000) \<and> (3000::int) \<noteq> 1000"
    by (simp add: example_done_def)
  have u: "logs_uncompressed_size example_done = 1000000"
    by (simp add: example_done_def)
  from done_runtime_and_speed [OF d z poll_example_done, THEN conjunct1, rule_format, OF t] u
  have "Log INFO (Compression_finished 2 500000) \<in>
          set [Log INFO (Compressed 1000000 250000 25), Log INFO (Compression_finished 2 500000)]"
    by simp
  with d show ?thesis by (simp add: poll_example_done)
qed

section \<open>Exit status\<close>

lemma exit_consistent_after:
  "\<not> list_ex terminal_report es \<Longrightarrow> \<not> list_ex fatal_report es \<Longrightarrow>
   exit_consistent r \<Longrightarrow> exit_consistent (after es r)"
  by (simp add: exit_consistent_def)

lemma poll_iteration_reports:
  "poll_iteration j seen found = (evs, seen', c) \<Longrightarrow>
     \<not> (list_ex terminal_report evs \<and> list_ex fatal_report evs) \<and>
     (c = Continue \<longrightarrow> \<not> list_ex terminal_report evs \<and> \<not> list_ex fatal_report evs) \<and>
     (c = Break \<longrightarrow> \<not> list_ex fatal_report evs) \<and>
     (\<forall>n. c = Return n \<longrightarrow> n = - 1 \<and> \<not> list_ex terminal_report evs) \<and>
     (\<forall>x l. c = Raise x l \<longrightarrow> \<not> list_ex terminal_report evs \<and> \<not> list_ex fatal_report evs)"
  by (cases found)
     (auto simp: poll_iteration_def report_progress_def truediv_def Let_def
           split: option.splits sum.splits if_splits prod.splits)

lemma cancel_wait_consistent: "exit_consistent (cancel_wait j st tks)"
proof (induction tks arbitrary: st)
  case Nil
  show ?case by (simp add: exit_consistent_def)
next
  case (Cons t tks)
  show ?case
  proof (cases t)
    case (Work w)
    with Cons.IH [of "w st"] show ?thesis
      by (auto simp: exit_consistent_def split: option.splits)
  next
    case (Ctrl_C w)
    then show ?thesis by (simp add: exit_consistent_def)
  qed
qed

lemma on_interrupt_consistent: "exit_consistent (on_interrupt i st tks)"
proof (cases i)
  case None
  then show ?thesis by (simp add: on_interrupt_def exit_consistent_def)
next
  case (Some oid)
  obtain res st' where r: "request_cancellation st oid = (res, st')"
    by (cases "request_cancellation st oid")
  show ?thesis
  proof (cases res)
    case None
    with Some r show ?thesis by (simp add: on_interrupt_def exit_consistent_def)
  next
    case (Some d)
    with \<open>i = Some oid\<close> r cancel_wait_consistent [of oid st' tks] show ?thesis
      by (simp add: on_interrupt_def exit_consistent_def)
  qed
qed

lemma monitor_consistent: "exit_consistent (monitor j seen st tks)"
proof (induction tks arbitrary: seen st)
  case Nil
  show ?case by (simp add: exit_consistent_def)
next
  case (Cons t tks)
  show ?case
  proof (cases t)
    case (Ctrl_C w)
    then show ?thesis
      using on_interrupt_consistent [of "Some j" "w st" tks] by (simp add: exit_consistent_def)
  next
    case (Work w)
    obtain evs seen' c where p: "poll_iteration j seen (find_one (w st) j) = (evs, seen', c)"
      by (metis prod_cases3)
    note q = poll_iteration_reports [OF p]
    show ?thesis
    proof (cases c)
      case Continue
      with q Cons.IH [of seen' "w st"] Work p show ?thesis
        by (simp add: exit_consistent_def)
    next
      case Break
      with q Work p show ?thesis by (simp add: exit_consistent_def)
    next
      case (Return n)
      with q Work p show ?thesis by (simp add: exit_consistent_def)
    next
      case (Raise x l)
      with q Work p show ?thesis by (simp add: exit_consistent_def)
    qed
  qed
qed

lemma main_consistent: "exit_consistent (main a e)"
  using monitor_consistent on_interrupt_consistent
  by (auto simp: main_def submit_and_wait_def insert_one_def exit_consistent_def
           split: option.splits)

lemma main_invalid:
  "validate a \<noteq> None \<Longrightarrow> outcome_of (main a e) = SystemExit 2"
  "validate a = None \<Longrightarrow> \<not> config_valid e \<Longrightarrow> outcome_of (main a e) = Returned (- 1)"
  by (auto simp: main_def)

text \<open>
  C6. Whatever the arguments and the environment: a run that logs a terminal outcome (failed,
  cancelled, finished with or without the error flag, or the line of the handler after a
  cancellation) exits with the status 0; a run that ends in a usage error, an invalid
  configuration, a job that disappeared or an unknown status (logged by the loop, or raised
  from line 252) exits with a status that is not 0.
\<close>

theorem exit_status_of_outcomes:
  "((Log ERROR Compression_failed \<in> set (events_of (main a e)) \<or>
     Log ERROR Compression_cancelled \<in> set (events_of (main a e)) \<or>
     (\<exists>t s. Log INFO (Compression_finished t s) \<in> set (events_of (main a e))) \<or>
     Log INFO Cancelled_jobs \<in> set (events_of (main a e)))
    \<longrightarrow> exit_status (outcome_of (main a e)) = Some 0) \<and>
   ((validate a \<noteq> None \<or> \<not> config_valid e \<or>
     Log ERROR Job_disappeared \<in> set (events_of (main a e)) \<or>
     (\<exists>s i. Log ERROR (Unknown_status s i) \<in> set (events_of (main a e))) \<or>
     outcome_of (main a e) = Raised KeyError 252)
    \<longrightarrow> (\<exists>n. exit_status (outcome_of (main a e)) = Some n \<and> n \<noteq> 0))"
proof -
  let ?E = "events_of (main a e)" and ?out = "outcome_of (main a e)"
  have t: "exit_status ?out = Some 0" if "x \<in> set ?E" and "terminal_report x" for x
    using main_consistent [of a e] that by (auto simp: exit_consistent_def list_ex_iff)
  have f: "exit_status ?out = Some 255" if "x \<in> set ?E" and "fatal_report x" for x
    using main_consistent [of a e] that by (auto simp: exit_consistent_def list_ex_iff)
  have v: "exit_status ?out = Some 2 \<or> exit_status ?out = Some 255"
    if "validate a \<noteq> None \<or> \<not> config_valid e"
    using that main_invalid [of a e] by (cases "validate a = None") auto
  show ?thesis
  proof (intro conjI impI)
    assume "Log ERROR Compression_failed \<in> set ?E \<or>
            Log ERROR Compression_cancelled \<in> set ?E \<or>
            (\<exists>t s. Log INFO (Compression_finished t s) \<in> set ?E) \<or>
            Log INFO Cancelled_jobs \<in> set ?E"
    then obtain x where "x \<in> set ?E" and "terminal_report x"
      by (elim disjE exE) (rule that, assumption, simp)+
    then show "exit_status ?out = Some 0" by (rule t)
  next
    assume "validate a \<noteq> None \<or> \<not> config_valid e \<or>
            Log ERROR Job_disappeared \<in> set ?E \<or>
            (\<exists>s i. Log ERROR (Unknown_status s i) \<in> set ?E) \<or>
            ?out = Raised KeyError 252"
    then consider "validate a \<noteq> None \<or> \<not> config_valid e"
      | x where "x \<in> set ?E" and "fatal_report x"
      | "?out = Raised KeyError 252"
    proof (elim disjE exE)
      assume "Log ERROR Job_disappeared \<in> set ?E"
      then show ?thesis by (rule that(2)) simp
    next
      fix s i
      assume "Log ERROR (Unknown_status s i) \<in> set ?E"
      then show ?thesis by (rule that(2)) simp
    qed (use that in blast)+
    then show "\<exists>n. exit_status ?out = Some n \<and> n \<noteq> 0"
    proof cases
      case 1
      with v show ?thesis by auto
    next
      case 2
      with f show ?thesis by auto
    next
      case 3
      then show ?thesis by simp
    qed
  qed
qed

theorem exit_status_of_outcomes_witness:
  "Log INFO (Compression_finished 2 500000) \<in> set (events_of (main example_args example_env)) \<and>
   exit_status (outcome_of (main example_args example_env)) = Some 0"
proof -
  have h: "Log INFO (Compression_finished 2 500000)
             \<in> set (events_of (main example_args example_env))"
    by (simp add: main_example)
  then have "\<exists>t s. Log INFO (Compression_finished t s)
             \<in> set (events_of (main example_args example_env))"
    by blast
  with exit_status_of_outcomes [of example_args example_env] h show ?thesis by blast
qed

section \<open>The submitted entry\<close>

lemma poll_iteration_no_insert:
  "poll_iteration j seen found = (evs, seen', c) \<Longrightarrow> filter is_insert evs = []"
  by (cases found)
     (auto simp: poll_iteration_def report_progress_def truediv_def Let_def
           split: option.splits sum.splits if_splits prod.splits)

lemma cancel_wait_no_insert: "filter is_insert (events_of (cancel_wait j st tks)) = []"
proof (induction tks arbitrary: st)
  case Nil
  show ?case by simp
next
  case (Cons t tks)
  show ?case
  proof (cases t)
    case (Work w)
    with Cons.IH [of "w st"] show ?thesis
      by (auto split: option.splits)
  next
    case (Ctrl_C w)
    then show ?thesis by simp
  qed
qed

lemma on_interrupt_no_insert: "filter is_insert (events_of (on_interrupt i st tks)) = []"
  using cancel_wait_no_insert
  by (auto simp: on_interrupt_def split: option.splits prod.splits)

lemma monitor_no_insert: "filter is_insert (events_of (monitor j seen st tks)) = []"
proof (induction tks arbitrary: seen st)
  case Nil
  show ?case by simp
next
  case (Cons t tks)
  show ?case
  proof (cases t)
    case (Ctrl_C w)
    then show ?thesis
      using on_interrupt_no_insert [of "Some j" "w st" tks] by simp
  next
    case (Work w)
    obtain evs seen' c where p: "poll_iteration j seen (find_one (w st) j) = (evs, seen', c)"
      by (metis prod_cases3)
    from poll_iteration_no_insert [OF p] Cons.IH [of seen' "w st"] Work p show ?thesis
      by (cases c) simp_all
  qed
qed

lemma submit_and_wait_inserts:
  "filter is_insert (events_of (submit_and_wait entry e)) = [Call_insert_one entry]"
  using monitor_no_insert on_interrupt_no_insert
  by (auto simp: submit_and_wait_def insert_one_def split: option.splits)

lemma gen_output_config_map_of:
  "distinct attrs \<Longrightarrow>
   map_of (gen_output_config a attrs) k = (if k \<in> set attrs then getattr a k else None)"
  by (induction attrs) (auto split: option.splits)

lemma gen_output_config_keys:
  "map fst (gen_output_config a attrs) = filter (\<lambda>k. getattr a k \<noteq> None) attrs"
  by (induction attrs) (auto split: option.splits)

lemma output_config_is_getattr:
  "map_of (gen_output_config a target_size_attributes) = getattr a"
proof
  fix k
  show "map_of (gen_output_config a target_size_attributes) k = getattr a k"
    unfolding gen_output_config_map_of [OF distinct_target_size_attributes]
    by (auto simp: target_size_attributes_eq getattr_def)
qed

lemma py_round_near: "\<bar>of_int (py_round x) - x\<bar> \<le> 1 / 2"
proof -
  have "of_int \<lfloor>x\<rfloor> \<le> x" and "x < of_int \<lfloor>x\<rfloor> + 1"
    by linarith+
  then show ?thesis
    by (auto simp: py_round_def Let_def)
qed

text \<open>
  C7. With valid arguments and a valid configuration, a run calls \<^verbatim>\<open>insert_one\<close> exactly
  once, on an entry with the status \<^verbatim>\<open>pending\<close>, the error flag unset, both sizes 0, the
  input type \<^verbatim>\<open>fs\<close>, a submission timestamp within half a millisecond of the clock, and an
  output configuration that maps each attribute of a size to the value given for it and to
  nothing where none was given, each key once. When the identifier is fresh and nothing
  interrupts, the collection after the submission is the old one with this entry added.
\<close>

theorem submission_creates_one_entry:
  assumes "validate a = None" and "config_valid e"
  shows "(let entry = make_entry a (collected_paths e) (clock e) in
          filter is_insert (events_of (main a e)) = [Call_insert_one entry] \<and>
          status entry = status_str PENDING \<and>
          errors entry = False \<and>
          logs_uncompressed_size entry = 0 \<and>
          logs_compressed_size entry = 0 \<and>
          input_type entry = ''fs'' \<and>
          \<bar>of_int (submission_timestamp entry) - clock e * 1000\<bar> \<le> 1 / 2 \<and>
          map_of (output_config entry) = getattr a \<and>
          distinct (map fst (output_config entry)) \<and>
          (\<not> interrupted_in_insert e \<and> collection e (new_id e) = None \<and> ticks e = [] \<longrightarrow>
             store_of (main a e) = (collection e)(new_id e \<mapsto> entry)))"
proof -
  let ?entry = "make_entry a (collected_paths e) (clock e)"
  have m: "main a e = submit_and_wait ?entry e"
    using assms by (simp add: main_def)
  have 1: "filter is_insert (events_of (main a e)) = [Call_insert_one ?entry]"
    unfolding m by (rule submit_and_wait_inserts)
  have 2: "status ?entry = status_str PENDING" "errors ?entry = False"
    "logs_uncompressed_size ?entry = 0" "logs_compressed_size ?entry = 0"
    "input_type ?entry = ''fs''"
    by (simp_all add: make_entry_def)
  have 3: "\<bar>of_int (submission_timestamp ?entry) - clock e * 1000\<bar> \<le> 1 / 2"
    using py_round_near [of "clock e * 1000"] by (simp add: make_entry_def)
  have 4: "map_of (output_config ?entry) = getattr a"
    by (simp add: make_entry_def output_config_is_getattr)
  have 5: "distinct (map fst (output_config ?entry))"
    by (simp add: make_entry_def gen_output_config_keys distinct_target_size_attributes)
  have 6: "store_of (main a e) = (collection e)(new_id e \<mapsto> ?entry)"
    if "\<not> interrupted_in_insert e \<and> collection e (new_id e) = None \<and> ticks e = []"
    unfolding m using that by (simp add: submit_and_wait_def insert_one_def)
  from 1 2 3 4 5 6 show ?thesis
    unfolding Let_def by blast
qed

theorem submission_creates_one_entry_witness:
  "validate example_args = None \<and> config_valid example_env \<and>
   filter is_insert (events_of (main example_args example_env)) = [Call_insert_one example_entry] \<and>
   map_of (output_config example_entry) ''target_archive_size'' = Some 268435456 \<and>
   map_of (output_config example_entry) ''target_segment_size'' = None \<and>
   submission_timestamp example_entry = 1700000000000"
proof -
  have c: "config_valid example_env" by (simp add: example_env_def)
  from submission_creates_one_entry [OF validate_example c]
  have "filter is_insert (events_of (main example_args example_env)) = [Call_insert_one example_entry]"
    and "map_of (output_config example_entry) = getattr example_args"
    by (simp_all add: Let_def make_entry_example)
  with c validate_example show ?thesis
    by (simp add: getattr_def example_args_def example_entry_eq)
qed

section \<open>A runtime of zero\<close>

text \<open>
  C8. In an iteration that finds a document with the status \<^verbatim>\<open>done\<close> whose two timestamps
  are present and of one encoding, the division of line 217 raises
  \<^verbatim>\<open>ZeroDivisionError\<close> exactly when the end equals the beginning: nothing guards it.
  When they differ the iteration leaves the loop by its \<^verbatim>\<open>break\<close>.
\<close>

theorem zero_runtime_raises:
  assumes "from_str (status doc) = Some DONE" and "0 \<le> seen"
    and "begin_timestamp doc = Some b" and "end_timestamp doc = Some e"
    and "ts_minus e b \<noteq> None"
  shows "snd (snd (poll_iteration job_id seen (Some doc))) =
           (if e = b then Raise ZeroDivisionError 217 else Break)"
  using assms
  by (cases e; cases b)
     (auto simp: poll_iteration_DONE report_progress_cases job_runtime_Millis job_runtime_Datetime)

theorem zero_runtime_raises_witness:
  "ts_minus (Millis 1000) (Millis 1000) \<noteq> None \<and>
   snd (snd (poll_iteration 0 0 (Some (example_done\<lparr>end_timestamp := Some (Millis 1000)\<rparr>)))) =
     Raise ZeroDivisionError 217"
proof -
  let ?doc = "example_done\<lparr>end_timestamp := Some (Millis 1000)\<rparr>"
  have d: "from_str (status ?doc) = Some DONE"
    by (simp add: example_done_def from_str_def)
  have z: "(0::int) \<le> 0" by simp
  have b: "begin_timestamp ?doc = Some (Millis 1000)" by (simp add: example_done_def)
  have e: "end_timestamp ?doc = Some (Millis 1000)" by simp
  have m: "ts_minus (Millis 1000) (Millis 1000) \<noteq> None" by simp
  from zero_runtime_raises [OF d z b e m, of 0] m show ?thesis by simp
qed

section \<open>The divisor of the ratio\<close>

lemma poll_iteration_positive:
  "0 \<le> seen \<Longrightarrow> poll_iteration j seen found = (evs, seen', c) \<Longrightarrow>
     0 \<le> seen' \<and> list_all positive_progress evs \<and> c \<noteq> Raise ZeroDivisionError 190"
  by (cases found)
     (auto simp: poll_iteration_def report_progress_cases truediv_def job_runtime_def
           split: option.splits sum.splits if_splits prod.splits delta.splits)

lemma cancel_wait_positive:
  "list_all positive_progress (events_of (cancel_wait j st tks)) \<and>
   outcome_of (cancel_wait j st tks) \<noteq> Raised ZeroDivisionError 190"
proof (induction tks arbitrary: st)
  case Nil
  show ?case by simp
next
  case (Cons t tks)
  show ?case
  proof (cases t)
    case (Work w)
    with Cons.IH [of "w st"] show ?thesis
      by (auto split: option.splits)
  next
    case (Ctrl_C w)
    then show ?thesis by simp
  qed
qed

lemma on_interrupt_positive:
  "list_all positive_progress (events_of (on_interrupt i st tks)) \<and>
   outcome_of (on_interrupt i st tks) \<noteq> Raised ZeroDivisionError 190"
  using cancel_wait_positive
  by (auto simp: on_interrupt_def split: option.splits prod.splits)

lemma monitor_positive:
  "0 \<le> seen \<Longrightarrow>
   list_all positive_progress (events_of (monitor j seen st tks)) \<and>
   outcome_of (monitor j seen st tks) \<noteq> Raised ZeroDivisionError 190"
proof (induction tks arbitrary: seen st)
  case Nil
  show ?case by simp
next
  case (Cons t tks)
  show ?case
  proof (cases t)
    case (Ctrl_C w)
    then show ?thesis
      using on_interrupt_positive [of "Some j" "w st" tks] by simp
  next
    case (Work w)
    obtain evs seen' c where p: "poll_iteration j seen (find_one (w st) j) = (evs, seen', c)"
      by (metis prod_cases3)
    from poll_iteration_positive [OF Cons.prems p]
    have q: "0 \<le> seen'" "list_all positive_progress evs" "c \<noteq> Raise ZeroDivisionError 190"
      by simp_all
    from Cons.IH [OF q(1), of "w st"] q(2,3) Work p show ?thesis
      by (cases c) simp_all
  qed
qed

text \<open>
  C9. No run raises \<^verbatim>\<open>ZeroDivisionError\<close> from the ratio of line 190, and every progress
  line of a run carries an uncompressed size above 0: the last seen size starts at 0 and is
  only ever replaced by a greater one.
\<close>

theorem ratio_divisor_positive:
  "outcome_of (main a e) \<noteq> Raised ZeroDivisionError 190 \<and>
   (\<forall>l u c r. Log l (Compressed u c r) \<in> set (events_of (main a e)) \<longrightarrow> 0 < u)"
proof -
  have "list_all positive_progress (events_of (main a e)) \<and>
        outcome_of (main a e) \<noteq> Raised ZeroDivisionError 190"
    using monitor_positive [of 0] on_interrupt_positive
    by (auto simp: main_def submit_and_wait_def insert_one_def split: option.splits)
  then show ?thesis
    by (fastforce simp: list_all_iff)
qed

theorem ratio_divisor_positive_witness:
  "Log INFO (Compressed 1000000 250000 25) \<in> set (events_of (main example_args example_env)) \<and>
   (0::int) < 1000000"
proof -
  have h: "Log INFO (Compressed 1000000 250000 25)
             \<in> set (events_of (main example_args example_env))"
    by (simp add: main_example)
  from ratio_divisor_positive [of example_args example_env, THEN conjunct2, rule_format, OF h] h
  show ?thesis by simp
qed

section \<open>An interruption before the identifier is known\<close>

text \<open>
  C10. An interruption that arrives before \<^verbatim>\<open>insert_one\<close> has returned finds
  \<^verbatim>\<open>job_id\<close> unset: the handler logs its announcement, calls no conditional update, neither
  sleeps nor polls, and \<^verbatim>\<open>main\<close> returns 0 with the collection untouched.
\<close>

theorem interrupt_before_insert:
  "on_interrupt None st tks = (Returned 0, [Log INFO Trying_to_cancel], st) \<and>
   (validate a = None \<and> config_valid e \<and> interrupted_in_insert e \<longrightarrow>
      main a e =
        (Returned 0,
         [Call_insert_one (make_entry a (collected_paths e) (clock e)), Log INFO Trying_to_cancel],
         collection e) \<and> exit_status (fst (main a e)) = Some 0)"
  by (simp add: on_interrupt_def main_def submit_and_wait_def)

theorem interrupt_before_insert_witness:
  "validate example_args = None \<and>
   outcome_of (main example_args (example_env\<lparr>interrupted_in_insert := True\<rparr>)) = Returned 0 \<and>
   events_of (main example_args (example_env\<lparr>interrupted_in_insert := True\<rparr>)) =
     [Call_insert_one example_entry, Log INFO Trying_to_cancel]"
proof -
  let ?e = "example_env\<lparr>interrupted_in_insert := True\<rparr>"
  have h: "validate example_args = None \<and> config_valid ?e \<and> interrupted_in_insert ?e"
    by (simp add: validate_example example_env_def)
  from interrupt_before_insert [of Map.empty "[]" example_args ?e, THEN conjunct2, rule_format, OF h]
  show ?thesis by (simp add: make_entry_example validate_example)
qed

end
